theory Spec2Isabelle
  imports Complex_Main "HOL-Library.AList"
begin

section \<open>Python values used by main.py\<close>

text \<open>
  Text is a list of bytes: the UTF-8 encoding of the Python \<open>str\<close>. The tests the
  program makes on text (\<open>endswith\<close>, \<open>startswith\<close>, \<open>in\<close>, \<open>replace\<close>, \<open>rsplit\<close>,
  \<open>split\<close>) all have ASCII patterns, and an ASCII byte never occurs inside a multi-byte
  sequence, so they agree on bytes and on code points. The icons of the literals are
  written out as the bytes the source file holds.
\<close>

datatype exn =
    DownloadError string     \<comment> \<open>\<open>yt_dlp.DownloadError\<close>, a subclass of \<open>Exception\<close>\<close>
  | Error string             \<comment> \<open>any other subclass of \<open>Exception\<close>, with its \<open>str(e)\<close>\<close>
  | BaseExc string           \<comment> \<open>a \<open>BaseException\<close> outside \<open>Exception\<close> (\<open>CancelledError\<close>, \<open>KeyboardInterrupt\<close>)\<close>

text \<open>\<open>except Exception\<close> catches the first two; a bare \<open>except:\<close> catches all three.\<close>

fun is_Exception :: "exn \<Rightarrow> bool" where
  "is_Exception (BaseExc m) = False"
| "is_Exception e = True"

fun str_of_exn :: "exn \<Rightarrow> string" where
  "str_of_exn (DownloadError m) = m"
| "str_of_exn (Error m) = m"
| "str_of_exn (BaseExc m) = m"

definition endswith :: "string \<Rightarrow> string \<Rightarrow> bool" where
  "endswith s suf = (length suf \<le> length s \<and> drop (length s - length suf) s = suf)"

definition startswith :: "string \<Rightarrow> string \<Rightarrow> bool" where
  "startswith s pre = (take (length pre) s = pre)"

text \<open>\<open>sub in s\<close> for two strings.\<close>

fun contains :: "string \<Rightarrow> string \<Rightarrow> bool" where
  "contains [] sub = (sub = [])"
| "contains (c # cs) sub = (startswith (c # cs) sub \<or> contains cs sub)"

text \<open>\<open>s.replace(c, '')\<close> for a one-character \<open>c\<close>.\<close>

definition remove_char :: "char \<Rightarrow> string \<Rightarrow> string" where
  "remove_char c s = filter (\<lambda>x. x \<noteq> c) s"

text \<open>
  \<open>str.isspace\<close> on the ASCII range: tab, line feed, vertical tab, form feed, carriage
  return, the four separators 0x1C..0x1F and the space. The white space of Unicode
  beyond ASCII (U+0085, U+00A0, U+1680, U+2000 to U+200A, U+2028, U+2029, U+202F,
  U+205F, U+3000), which \<open>str.strip\<close> removes as well, is several bytes here and is
  left in place by \<open>strip\<close> below: on text with such characters at an end the model
  keeps what Python removes. The general facts below that mention \<open>strip\<close> use nothing
  of what it removes; the one exception says that this \<open>strip\<close> leaves text without
  ASCII white space as it is. The examples apply it to ASCII text only.
\<close>

definition isspace :: "char \<Rightarrow> bool" where
  "isspace c = (c \<in> set [CHR 0x09, CHR 0x0A, CHR 0x0B, CHR 0x0C, CHR 0x0D,
                           CHR 0x1C, CHR 0x1D, CHR 0x1E, CHR 0x1F, CHR 0x20])"

definition strip :: "string \<Rightarrow> string" where
  "strip s = rev (dropWhile isspace (rev (dropWhile isspace s)))"

text \<open>\<open>s.split(c)\<close>: the fields between the occurrences of \<open>c\<close>; never the empty list.\<close>

fun split_char :: "char \<Rightarrow> string \<Rightarrow> string list" where
  "split_char c [] = [[]]"
| "split_char c (x # xs) =
     (if x = c then [] # split_char c xs
      else (case split_char c xs of
              [] \<Rightarrow> [[x]]
            | f # fs \<Rightarrow> (x # f) # fs))"

text \<open>
  \<open>s.rsplit(c, 1)[0]\<close>: what stands before the last \<open>c\<close>, the whole string when
  there is none.
\<close>

definition rsplit1_head :: "char \<Rightarrow> string \<Rightarrow> string" where
  "rsplit1_head c s =
     (if c \<in> set s then rev (tl (dropWhile (\<lambda>x. x \<noteq> c) (rev s))) else s)"

subsection \<open>Floats and the interpreter\<close>

text \<open>
  A Python float is a finite number, an infinity or a NaN. Finite values are kept as
  the real number they denote.
\<close>

datatype pyfloat = Finite real | PosInf | NegInf | NaN

text \<open>
  What the program takes from the interpreter: the builtin \<open>float\<close> on a string
  (\<open>None\<close> is its \<open>ValueError\<close>), and whether a string of \<open>n\<close> copies of a literal can be
  built (otherwise \<open>str * int\<close> raises \<open>OverflowError\<close> or \<open>MemoryError\<close>).
\<close>

record interpreter =
  float_of :: "string \<Rightarrow> pyfloat option"
  can_repeat :: "int \<Rightarrow> bool"

text \<open>\<open>x // 5\<close> on a float: an infinity or a NaN gives NaN.\<close>

fun floordiv5 :: "pyfloat \<Rightarrow> pyfloat" where
  "floordiv5 (Finite x) = Finite (of_int \<lfloor>x / 5\<rfloor>)"
| "floordiv5 PosInf = NaN"
| "floordiv5 NegInf = NaN"
| "floordiv5 NaN = NaN"

text \<open>\<open>int(x)\<close>: truncation; \<open>OverflowError\<close> on an infinity, \<open>ValueError\<close> on a NaN.\<close>

fun int_of_float :: "pyfloat \<Rightarrow> exn + int" where
  "int_of_float (Finite x) = Inr (if 0 \<le> x then \<lfloor>x\<rfloor> else \<lceil>x\<rceil>)"
| "int_of_float PosInf = Inl (Error ''cannot convert float infinity to integer'')"
| "int_of_float NegInf = Inl (Error ''cannot convert float infinity to integer'')"
| "int_of_float NaN = Inl (Error ''cannot convert float NaN to integer'')"

text \<open>\<open>s * n\<close>: the empty string for \<open>n \<le> 0\<close>.\<close>

definition str_mul :: "interpreter \<Rightarrow> string \<Rightarrow> int \<Rightarrow> exn + string" where
  "str_mul py s n =
     (if n \<le> 0 then Inr []
      else if can_repeat py n then Inr (concat (replicate (nat n) s))
      else Inl (Error ''cannot fit int into an index-sized integer''))"

section \<open>ProgressHook\<close>

definition NL :: string where "NL = [CHR 0x0A]"

definition BAR_FULL :: string where
  "BAR_FULL = [CHR 0xC3, CHR 0xA2, CHR 0xE2, CHR 0x80, CHR 0x93, CHR 0xCB, CHR 0x86]"

definition BAR_EMPTY :: string where
  "BAR_EMPTY = [CHR 0xC3, CHR 0xA2, CHR 0xE2, CHR 0x80, CHR 0x93, CHR 0xE2, CHR 0x80, CHR 0x98]"

definition ICON_DOWNLOAD :: string where
  "ICON_DOWNLOAD = [CHR 0xC3, CHR 0xB0, CHR 0xC5, CHR 0xB8, CHR 0xE2, CHR 0x80, CHR 0x9C, CHR 0xC2, CHR 0xA5]"

definition ICON_PROGRESS :: string where
  "ICON_PROGRESS = [CHR 0xC3, CHR 0xB0, CHR 0xC5, CHR 0xB8, CHR 0xE2, CHR 0x80, CHR 0x9C, CHR 0xC5, CHR 0xA0]"

definition ICON_SPEED :: string where
  "ICON_SPEED = [CHR 0xC3, CHR 0xA2, CHR 0xC5, CHR 0xA1, CHR 0xC2, CHR 0xA1]"

definition ICON_ETA :: string where
  "ICON_ETA = [CHR 0xC3, CHR 0xA2, CHR 0xC2, CHR 0xB1]"

definition ICON_CHECK :: string where
  "ICON_CHECK = [CHR 0xC3, CHR 0xA2, CHR 0xC5, CHR 0x93, CHR 0xE2, CHR 0x80, CHR 0xA6]"

definition ICON_CROSS :: string where
  "ICON_CROSS = [CHR 0xC3, CHR 0xA2, CHR 0xC5, CHR 0x92]"

text \<open>The text of the \<open>except:\<close> branch (line 106).\<close>

definition fallback_text :: "string \<Rightarrow> string \<Rightarrow> string \<Rightarrow> string" where
  "fallback_text percent speed eta =
     ICON_DOWNLOAD @ '' Downloading...'' @ NL @ ICON_PROGRESS @ '' Progress: '' @ percent @ NL
       @ ICON_SPEED @ '' Speed: '' @ speed @ NL @ ICON_ETA @ '' ETA: '' @ eta"

text \<open>The text of the \<open>try\<close> branch, given the bar (line 104).\<close>

definition bar_text :: "string \<Rightarrow> string \<Rightarrow> string \<Rightarrow> string \<Rightarrow> string" where
  "bar_text progress_bar percent speed eta =
     ICON_DOWNLOAD @ '' Downloading: ['' @ progress_bar @ ''] '' @ percent @ NL
       @ ICON_SPEED @ '' Speed: '' @ speed @ NL @ ICON_ETA @ '' ETA: '' @ eta"

text \<open>The body of the \<open>try\<close> (lines 101 to 104): every raise is an \<open>Inl\<close>.\<close>

definition try_bar :: "interpreter \<Rightarrow> string \<Rightarrow> string \<Rightarrow> string \<Rightarrow> exn + string" where
  "try_bar py percent speed eta =
     (case float_of py (remove_char CHR ''%'' percent) of
        None \<Rightarrow> Inl (Error ''could not convert string to float'')
      | Some percent_float \<Rightarrow>
          (case int_of_float (floordiv5 percent_float) of
             Inl e \<Rightarrow> Inl e
           | Inr filled_blocks \<Rightarrow>
               (case str_mul py BAR_FULL filled_blocks of
                  Inl e \<Rightarrow> Inl e
                | Inr full \<Rightarrow>
                    (case str_mul py BAR_EMPTY (20 - filled_blocks) of
                       Inl e \<Rightarrow> Inl e
                     | Inr blank \<Rightarrow> Inr (bar_text (full @ blank) percent speed eta)))))"

text \<open>
  Lines 100 to 106: the \<open>try\<close> with its bare \<open>except:\<close>. The result type keeps a place
  for an exception leaving the block.
\<close>

definition progress_text :: "interpreter \<Rightarrow> string \<Rightarrow> string \<Rightarrow> string \<Rightarrow> exn + string" where
  "progress_text py percent speed eta =
     (case try_bar py percent speed eta of
        Inr t \<Rightarrow> Inr t
      | Inl e \<Rightarrow> Inr (fallback_text percent speed eta))"

text \<open>
  A progress event of the download library: its \<open>status\<close>, and for \<open>downloading\<close> the
  three optional entries \<open>_percent_str\<close>, \<open>_speed_str\<close> and \<open>_eta_str\<close> (\<open>None\<close>: the key is
  absent and \<open>d.get\<close> gives its default).
\<close>

datatype event =
    Downloading "string option" "string option" "string option"
  | Finished
  | OtherStatus string

text \<open>The calls the program makes to the chat platform.\<close>

datatype api_call =
    SendMessage int string               \<comment> \<open>chat id, text\<close>
  | EditMessageText int int string       \<comment> \<open>chat id, message id, text\<close>
  | SendAudio int string string          \<comment> \<open>chat id, file, title\<close>
  | SendVideo int string string          \<comment> \<open>chat id, file, caption\<close>
  | SendDocument int string string       \<comment> \<open>chat id, file, caption\<close>

fun call_text :: "api_call \<Rightarrow> string" where
  "call_text (SendMessage c t) = t"
| "call_text (EditMessageText c m t) = t"
| "call_text (SendAudio c f t) = t"
| "call_text (SendVideo c f t) = t"
| "call_text (SendDocument c f t) = t"

text \<open>
  What the platform answers to a call: the id of the message it returns, or an
  exception.
\<close>

datatype api_result = Returns int | Raises exn

record ProgressHook =
  user_id :: int
  last_update :: real
  message_id :: "int option"
  last_progress_text :: string

definition new_hook :: "int \<Rightarrow> ProgressHook" where
  "new_hook uid = \<lparr>user_id = uid, last_update = 0, message_id = None, last_progress_text = []\<rparr>"

text \<open>
  One call of the hook returns the new state, the call made to the platform (if any)
  and the exception that leaves the hook (if any): \<open>except Exception\<close> lets a
  \<open>BaseException\<close> through.
\<close>

type_synonym hook_step = "ProgressHook \<times> api_call option \<times> exn option"

definition uncaught :: "exn \<Rightarrow> exn option" where
  "uncaught e = (if is_Exception e then None else Some e)"

text \<open>Lines 86 to 128; \<open>current_time\<close> is what \<open>time.time()\<close> returns in this call.\<close>

definition on_downloading ::
  "interpreter \<Rightarrow> real \<Rightarrow> api_result \<Rightarrow> string option \<Rightarrow> string option \<Rightarrow> string option
     \<Rightarrow> ProgressHook \<Rightarrow> hook_step" where
  "on_downloading py current_time res p s e h =
     (if current_time - last_update h < 2 then (h, None, None)
      else
        let h1 = h\<lparr>last_update := current_time\<rparr>;
            percent = (case p of None \<Rightarrow> ''0%'' | Some x \<Rightarrow> x);
            speed = (case s of None \<Rightarrow> ''N/A'' | Some x \<Rightarrow> x);
            eta = (case e of None \<Rightarrow> ''N/A'' | Some x \<Rightarrow> x)
        in (case progress_text py percent speed eta of
              Inl ex \<Rightarrow> (h1, None, Some ex)
            | Inr text \<Rightarrow>
                if text \<noteq> last_progress_text h1 then
                  let h2 = h1\<lparr>last_progress_text := text\<rparr>
                  in (case message_id h2 of
                        None \<Rightarrow>
                          (case res of
                             Returns mid \<Rightarrow>
                               (h2\<lparr>message_id := Some mid\<rparr>, Some (SendMessage (user_id h2) text), None)
                           | Raises ex \<Rightarrow>
                               (h2, Some (SendMessage (user_id h2) text), uncaught ex))
                      | Some mid \<Rightarrow>
                          (case res of
                             Returns m \<Rightarrow>
                               (h2, Some (EditMessageText (user_id h2) mid text), None)
                           | Raises ex \<Rightarrow>
                               (h2, Some (EditMessageText (user_id h2) mid text), uncaught ex)))
                else (h1, None, None)))"

definition PROCESSING_TEXT :: string where
  "PROCESSING_TEXT = ICON_CHECK @ '' Download complete! Processing file...''"

text \<open>Lines 130 to 140; \<open>if self.message_id:\<close> is false for \<open>None\<close> and for 0.\<close>

definition on_finished :: "api_result \<Rightarrow> ProgressHook \<Rightarrow> hook_step" where
  "on_finished res h =
     (case message_id h of
        None \<Rightarrow> (h, None, None)
      | Some mid \<Rightarrow>
          if mid \<noteq> 0 then
            (case res of
               Returns m \<Rightarrow> (h, Some (EditMessageText (user_id h) mid PROCESSING_TEXT), None)
             | Raises ex \<Rightarrow> (h, Some (EditMessageText (user_id h) mid PROCESSING_TEXT), uncaught ex))
          else (h, None, None))"

fun hook_call :: "interpreter \<Rightarrow> real \<Rightarrow> api_result \<Rightarrow> event \<Rightarrow> ProgressHook \<Rightarrow> hook_step" where
  "hook_call py t res (Downloading p s e) h = on_downloading py t res p s e h"
| "hook_call py t res Finished h = on_finished res h"
| "hook_call py t res (OtherStatus st) h = (h, None, None)"

text \<open>
  A hook fed a sequence of events, each with the clock reading of its call and the
  platform's answer to the call it makes (if it makes one). The calls made are
  collected with their clock readings. The events keep coming whether or not an
  earlier call of the hook let an exception through: that covers every caller.
\<close>

type_synonym delivery = "real \<times> api_result \<times> event"

fun emissions :: "interpreter \<Rightarrow> ProgressHook \<Rightarrow> delivery list \<Rightarrow> (real \<times> api_call) list" where
  "emissions py h [] = []"
| "emissions py h ((t, res, ev) # rest) =
     (case hook_call py t res ev h of
        (h', c, x) \<Rightarrow>
          (case c of None \<Rightarrow> [] | Some a \<Rightarrow> [(t, a)]) @ emissions py h' rest)"

fun final_hook :: "interpreter \<Rightarrow> ProgressHook \<Rightarrow> delivery list \<Rightarrow> ProgressHook" where
  "final_hook py h [] = h"
| "final_hook py h ((t, res, ev) # rest) = final_hook py (fst (hook_call py t res ev h)) rest"

fun is_downloading :: "event \<Rightarrow> bool" where
  "is_downloading (Downloading p s e) = True"
| "is_downloading ev = False"

section \<open>The configuration file\<close>

text \<open>What \<open>json.load\<close> returns.\<close>

datatype json =
    JNull
  | JBool bool
  | JNum real
  | JStr string
  | JList "json list"
  | JObj "(string \<times> json) list"    \<comment> \<open>a \<open>dict\<close>: its items in insertion order\<close>

text \<open>\<open>key in config\<close> for a \<open>str\<close> key: a \<open>TypeError\<close> where the value is not a container.\<close>

fun py_in :: "string \<Rightarrow> json \<Rightarrow> exn + bool" where
  "py_in k (JObj kvs) = Inr (k \<in> set (map fst kvs))"
| "py_in k (JList xs) = Inr (JStr k \<in> set xs)"
| "py_in k (JStr s) = Inr (contains s k)"
| "py_in k JNull = Inl (Error ''argument of type NoneType is not iterable'')"
| "py_in k (JBool b) = Inl (Error ''argument of type bool is not iterable'')"
| "py_in k (JNum n) = Inl (Error ''argument of type number is not iterable'')"

text \<open>\<open>config[key] = value\<close> for a \<open>str\<close> key: a \<open>TypeError\<close> on anything but a \<open>dict\<close>.\<close>

fun py_setitem :: "string \<Rightarrow> json \<Rightarrow> json \<Rightarrow> exn + json" where
  "py_setitem k v (JObj kvs) = Inr (JObj (AList.update k v kvs))"
| "py_setitem k v c = Inl (Error ''object does not support item assignment'')"

text \<open>
  The file \<open>bot_config.json\<close>: absent; present but \<open>open\<close> or \<open>json.load\<close> raises; or
  present with text that \<open>json.load\<close> turns into a value. \<open>json.dump\<close> followed by
  \<open>json.load\<close> is taken to give the value back, as the json module does for values
  that came from \<open>json.load\<close> or have \<open>str\<close> keys and \<open>str\<close> values.
\<close>

datatype file_state = Absent | Unreadable | Parsed json

text \<open>
  The module state of the configuration: the file, and the one entry of the global
  \<open>DEFAULT_CONFIG\<close>. The dict is created with the single key \<open>required_channel\<close>
  (lines 35 to 37), and the only assignment in the program that can reach it is
  \<open>config['required_channel'] = channel\<close> (line 260), through the alias that
  \<open>load_config\<close> returns; so it is kept as the value under that key.
\<close>

record config_store =
  config_file :: file_state
  default_channel :: string

definition DEFAULT_CONFIG :: "config_store \<Rightarrow> (string \<times> json) list" where
  "DEFAULT_CONFIG st = [(''required_channel'', JStr (default_channel st))]"

definition initial_store :: "file_state \<Rightarrow> string \<Rightarrow> config_store" where
  "initial_store f REQUIRED_CHANNEL = \<lparr>config_file = f, default_channel = REQUIRED_CHANNEL\<rparr>"

text \<open>
  How a write ends: the file holds the new text; \<open>open(.., 'w')\<close> raised and the file is
  as before; or the file was truncated and the write raised, leaving text that does
  not parse.
\<close>

datatype write_outcome = Written | OpenFailed | WriteFailed

text \<open>Lines 57 to 62: the exception is logged and swallowed.\<close>

definition save_config :: "write_outcome \<Rightarrow> json \<Rightarrow> config_store \<Rightarrow> config_store" where
  "save_config w config st =
     (case w of
        Written \<Rightarrow> st\<lparr>config_file := Parsed config\<rparr>
      | OpenFailed \<Rightarrow> st
      | WriteFailed \<Rightarrow> st\<lparr>config_file := Unreadable\<rparr>)"

text \<open>Lines 46 to 48: the loop over \<open>DEFAULT_CONFIG.items()\<close>.\<close>

fun backfill :: "(string \<times> json) list \<Rightarrow> json \<Rightarrow> exn + json" where
  "backfill [] config = Inr config"
| "backfill ((k, v) # kvs) config =
     (case py_in k config of
        Inl e \<Rightarrow> Inl e
      | Inr True \<Rightarrow> backfill kvs config
      | Inr False \<Rightarrow>
          (case py_setitem k v config of
             Inl e \<Rightarrow> Inl e
           | Inr config' \<Rightarrow> backfill kvs config'))"

text \<open>
  \<open>load_config\<close> returns either a fresh object or the global \<open>DEFAULT_CONFIG\<close> itself
  (lines 52 and 55 return the dict, not a copy).
\<close>

datatype config_ref = TheDefault | Loaded json

definition config_value :: "config_store \<Rightarrow> config_ref \<Rightarrow> json" where
  "config_value st r = (case r of TheDefault \<Rightarrow> JObj (DEFAULT_CONFIG st) | Loaded c \<Rightarrow> c)"

text \<open>Lines 40 to 55; \<open>w\<close> is how the write of line 54 ends, if it is made.\<close>

definition load_config :: "write_outcome \<Rightarrow> config_store \<Rightarrow> config_ref \<times> config_store" where
  "load_config w st =
     (case config_file st of
        Absent \<Rightarrow> (TheDefault, save_config w (JObj (DEFAULT_CONFIG st)) st)
      | Unreadable \<Rightarrow> (TheDefault, st)
      | Parsed config \<Rightarrow>
          (case backfill (DEFAULT_CONFIG st) config of
             Inl e \<Rightarrow> (TheDefault, st)
           | Inr c \<Rightarrow> (Loaded c, st)))"

text \<open>The value \<open>load_config()\<close> returns, read in the state it leaves.\<close>

definition loaded :: "write_outcome \<Rightarrow> config_store \<Rightarrow> json" where
  "loaded w st = (case load_config w st of (r, st') \<Rightarrow> config_value st' r)"

text \<open>Whether a value is a \<open>dict\<close> with the key.\<close>

fun has_key :: "json \<Rightarrow> string \<Rightarrow> bool" where
  "has_key (JObj kvs) k = (map_of kvs k \<noteq> None)"
| "has_key c k = False"

fun lookup :: "json \<Rightarrow> string \<Rightarrow> json option" where
  "lookup (JObj kvs) k = map_of kvs k"
| "lookup c k = None"

subsection \<open>/setchannel\<close>

definition PERMISSION_DENIED :: string where
  "PERMISSION_DENIED = ICON_CROSS @ '' You don't have permission to use this command.''"

text \<open>
  Lines 242 to 263. The handler returns the texts it replies with, the exception that
  leaves it (if any) and the new state. A reply is the last statement of its path, so
  whether it raises changes nothing of the state. \<open>w1\<close> and \<open>w2\<close> are how the writes of
  lines 54 and 261 end.
\<close>

definition set_channel_command ::
  "int list \<Rightarrow> write_outcome \<Rightarrow> write_outcome \<Rightarrow> int \<Rightarrow> string list \<Rightarrow> config_store
     \<Rightarrow> string list \<times> exn option \<times> config_store" where
  "set_channel_command ADMIN_IDS w1 w2 uid args st =
     (if uid \<notin> set ADMIN_IDS then ([PERMISSION_DENIED], None, st)
      else if args = [] then ([''Usage: /setchannel @channelusername''], None, st)
      else
        let channel = strip (hd args)
        in if \<not> startswith channel ''@'' then ([''Channel username must start with @''], None, st)
           else
             (case load_config w1 st of
                (TheDefault, st1) \<Rightarrow>
                  let st2 = st1\<lparr>default_channel := channel\<rparr>
                  in ([ICON_CHECK @ '' Required channel set to '' @ channel], None,
                      save_config w2 (JObj (DEFAULT_CONFIG st2)) st2)
              | (Loaded config, st1) \<Rightarrow>
                  (case py_setitem ''required_channel'' (JStr channel) config of
                     Inl e \<Rightarrow> ([], Some e, st1)
                   | Inr config' \<Rightarrow>
                       ([ICON_CHECK @ '' Required channel set to '' @ channel], None,
                        save_config w2 config' st1))))"

section \<open>The session table\<close>

record session =
  url :: string
  format :: "string option"

type_synonym sessions = "int \<rightharpoonup> session"

definition FORMATS :: "(string \<times> string) list" where
  "FORMATS =
     [(''best'', ''Best Quality''),
      (''best[height<=720]'', ''720p''),
      (''best[height<=480]'', ''480p''),
      (''bestaudio/best'', ''Audio Only''),
      (''mp3'', ''MP3 Audio'')]"

text \<open>Line 285: \<open>user_sessions[user_id] = {'url': text}\<close>.\<close>

definition put :: "int \<Rightarrow> string \<Rightarrow> sessions \<Rightarrow> sessions" where
  "put uid text tbl = tbl(uid \<mapsto> \<lparr>url = text, format = None\<rparr>)"

text \<open>
  Lines 306 to 311: \<open>None\<close> is the branch \<open>user_id not in user_sessions\<close>; otherwise the
  url read from the entry and the table with the format stored in it.
\<close>

definition set_format :: "int \<Rightarrow> string \<Rightarrow> sessions \<Rightarrow> (string \<times> sessions) option" where
  "set_format uid format_key tbl =
     (case tbl uid of
        None \<Rightarrow> None
      | Some entry \<Rightarrow> Some (url entry, tbl(uid \<mapsto> entry\<lparr>format := Some format_key\<rparr>)))"

text \<open>What a handler shows: a reply, a reply with the keyboard, or an edit of the message.\<close>

datatype shown =
    Reply string
  | ReplyKeyboard string "(string \<times> string) list"    \<comment> \<open>text; label and callback data of each button\<close>
  | EditQuery string

text \<open>Lines 275 to 296.\<close>

definition handle_message :: "int \<Rightarrow> string \<Rightarrow> sessions \<Rightarrow> shown list \<times> sessions" where
  "handle_message uid message_text tbl =
     (let text = strip message_text
      in if \<not> (contains text ''youtube.com'' \<or> contains text ''youtu.be'')
         then ([Reply ''Please send a valid YouTube URL.''], tbl)
         else ([ReplyKeyboard ''Select download format:''
                  (map (\<lambda>(key, val). (val, ''format_'' @ key)) FORMATS)],
               put uid text tbl))"

text \<open>\<open>xs[1]\<close>: an \<open>IndexError\<close> when there is no second element.\<close>

fun second :: "string list \<Rightarrow> exn + string" where
  "second (a # b # rest) = Inr b"
| "second xs = Inl (Error ''list index out of range'')"

text \<open>
  Lines 298 to 318. \<open>answered\<close> and \<open>edited\<close> are the exceptions of \<open>query.answer()\<close> and of
  the \<open>edit_message_text\<close> of line 315 (\<open>None\<close>: the call returns). The handler returns
  what it shows, the exception leaving it, the download task it starts and the new
  table.
\<close>

definition format_button ::
  "exn option \<Rightarrow> exn option \<Rightarrow> int \<Rightarrow> string \<Rightarrow> sessions
     \<Rightarrow> shown list \<times> exn option \<times> (int \<times> string \<times> string) option \<times> sessions" where
  "format_button answered edited uid data tbl =
     (case answered of
        Some e \<Rightarrow> ([], Some e, None, tbl)
      | None \<Rightarrow>
          (case second (split_char CHR ''_'' data) of
             Inl e \<Rightarrow> ([], Some e, None, tbl)
           | Inr format_key \<Rightarrow>
               (case set_format uid format_key tbl of
                  None \<Rightarrow> ([EditQuery ''Session expired. Please send the URL again.''], None, None, tbl)
                | Some (link, tbl') \<Rightarrow>
                    let format_name = (case map_of FORMATS format_key of
                                         None \<Rightarrow> format_key | Some n \<Rightarrow> n);
                        msg = EditQuery (''Selected: '' @ format_name @ NL @ ''Starting download...'')
                    in (case edited of
                          Some e \<Rightarrow> ([msg], Some e, None, tbl')
                        | None \<Rightarrow> ([msg], None, Some (uid, link, format_key), tbl')))))"

section \<open>process\_download\<close>

record postprocessor =
  pp_key :: string
  preferredcodec :: string
  preferredquality :: string

record ydl_opts =
  outtmpl :: string
  noplaylist :: bool
  quiet :: bool
  no_warnings :: bool
  ydl_format :: string
  postprocessors :: "postprocessor list"

text \<open>\<open>os.path.join(a, b)\<close> for a relative \<open>b\<close>.\<close>

definition path_join :: "string \<Rightarrow> string \<Rightarrow> string" where
  "path_join a b = (if a = [] \<or> endswith a ''/'' then a @ b else a @ ''/'' @ b)"

text \<open>Lines 328 to 347.\<close>

definition build_opts :: "string \<Rightarrow> string \<Rightarrow> ydl_opts" where
  "build_opts temp_dir format_key =
     (let opts = \<lparr>outtmpl = path_join temp_dir ''%(title)s.%(ext)s'', noplaylist = True,
                  quiet = True, no_warnings = True, ydl_format = [], postprocessors = []\<rparr>
      in if format_key = ''mp3''
         then opts\<lparr>ydl_format := ''bestaudio/best'',
                   postprocessors := [\<lparr>pp_key = ''FFmpegExtractAudio'', preferredcodec = ''mp3'',
                                       preferredquality = ''192''\<rparr>]\<rparr>
         else opts\<lparr>ydl_format := format_key\<rparr>)"

text \<open>
  What lies outside the program during one call: the temporary directory (its
  creation and its removal), the download library (\<open>extract_info\<close> followed by
  \<open>prepare_filename\<close>: the title of the metadata, if it has one, and the file name),
  the file system, the chat platform, and what the other tasks do to the session table
  before this call reaches its clean-up.
\<close>

record world =
  mkdtemp :: "exn + string"
  rmtree :: "exn option"
  extract_info :: "string \<Rightarrow> ydl_opts \<Rightarrow> exn + (string option \<times> string)"
  path_exists :: "string \<Rightarrow> bool"
  open_file :: "string \<Rightarrow> exn option"
  api :: "api_call \<Rightarrow> exn option"
  others :: "sessions \<Rightarrow> sessions"

text \<open>Lines 355 to 358.\<close>

definition output_filename :: "world \<Rightarrow> string \<Rightarrow> string \<Rightarrow> string" where
  "output_filename w format_key filename =
     (if format_key = ''mp3'' then
        let mp3_filename = rsplit1_head CHR ''.'' filename @ ''.mp3''
        in if path_exists w mp3_filename then mp3_filename else filename
      else filename)"

text \<open>Lines 362 to 379: which call sends the file.\<close>

definition send_file :: "int \<Rightarrow> string \<Rightarrow> string \<Rightarrow> api_call" where
  "send_file uid filename title =
     (if endswith filename ''.mp3'' then SendAudio uid filename title
      else if (\<exists>ext \<in> set [''.mp4'', ''.webm'', ''.mkv'']. endswith filename ext)
           then SendVideo uid filename title
      else SendDocument uid filename title)"

text \<open>
  Lines 350 to 379, inside the temporary directory: the calls made to the platform and
  the exception raised, if any. The file is opened before the call is made.
\<close>

definition download_and_send ::
  "world \<Rightarrow> int \<Rightarrow> string \<Rightarrow> string \<Rightarrow> string \<Rightarrow> api_call list \<times> exn option" where
  "download_and_send w uid link format_key temp_dir =
     (case extract_info w link (build_opts temp_dir format_key) of
        Inl e \<Rightarrow> ([], Some e)
      | Inr (info_title, filename0) \<Rightarrow>
          let filename = output_filename w format_key filename0;
              title = (case info_title of None \<Rightarrow> ''video'' | Some t \<Rightarrow> t)
          in (case open_file w filename of
                Some e \<Rightarrow> ([], Some e)
              | None \<Rightarrow> ([send_file uid filename title], api w (send_file uid filename title))))"

text \<open>
  Lines 322 to 379: the \<open>try\<close> body. An exception of the removal of the directory
  replaces the outcome of the block.
\<close>

definition try_body :: "world \<Rightarrow> int \<Rightarrow> string \<Rightarrow> string \<Rightarrow> api_call list \<times> exn option" where
  "try_body w uid link format_key =
     (case mkdtemp w of
        Inl e \<Rightarrow> ([], Some e)
      | Inr temp_dir \<Rightarrow>
          (case download_and_send w uid link format_key temp_dir of
             (calls, r) \<Rightarrow> (case rmtree w of None \<Rightarrow> (calls, r) | Some e \<Rightarrow> (calls, Some e))))"

text \<open>Lines 382 and 385.\<close>

fun error_msg :: "exn \<Rightarrow> string" where
  "error_msg (DownloadError m) = ''Download failed. The video may be restricted or unavailable.''"
| "error_msg e = ''An error occurred: '' @ str_of_exn e"

definition error_call :: "int \<Rightarrow> exn \<Rightarrow> api_call" where
  "error_call uid e =
     SendMessage uid (ICON_CROSS @ '' '' @ error_msg e @ NL @ ''Please try again with a different video.'')"

text \<open>Lines 389 to 390 and 403 to 404.\<close>

definition cleanup :: "int \<Rightarrow> sessions \<Rightarrow> sessions" where
  "cleanup uid tbl = (if uid \<in> dom tbl then tbl(uid := None) else tbl)"

text \<open>
  How a call ends: it returns, or an exception leaves it. Line 320 to 404: the calls
  made to the platform, the ending, and the session table when the call ends.
\<close>

datatype ending = Returned | Propagated exn

definition process_download ::
  "world \<Rightarrow> int \<Rightarrow> string \<Rightarrow> string \<Rightarrow> sessions \<Rightarrow> api_call list \<times> ending \<times> sessions" where
  "process_download w uid link format_key tbl =
     (case try_body w uid link format_key of
        (calls, None) \<Rightarrow> (calls, Returned, cleanup uid (others w tbl))
      | (calls, Some e) \<Rightarrow>
          if \<not> is_Exception e then (calls, Propagated e, others w tbl)
          else
            (case api w (error_call uid e) of
               None \<Rightarrow> (calls @ [error_call uid e], Returned, cleanup uid (others w tbl))
             | Some e2 \<Rightarrow>
                 if is_Exception e2
                 then (calls @ [error_call uid e], Returned, cleanup uid (others w tbl))
                 else (calls @ [error_call uid e], Propagated e2, others w tbl)))"

text \<open>A world in which nothing raises a \<open>BaseException\<close> outside \<open>Exception\<close>.\<close>

definition only_Exceptions :: "world \<Rightarrow> bool" where
  "only_Exceptions w =
     ((\<forall>e. mkdtemp w = Inl e \<longrightarrow> is_Exception e) \<and>
      (\<forall>e. rmtree w = Some e \<longrightarrow> is_Exception e) \<and>
      (\<forall>l opts e. extract_info w l opts = Inl e \<longrightarrow> is_Exception e) \<and>
      (\<forall>f e. open_file w f = Some e \<longrightarrow> is_Exception e) \<and>
      (\<forall>c e. api w c = Some e \<longrightarrow> is_Exception e))"

text \<open>The calls that send a file.\<close>

fun is_file_send :: "api_call \<Rightarrow> bool" where
  "is_file_send (SendAudio c f t) = True"
| "is_file_send (SendVideo c f t) = True"
| "is_file_send (SendDocument c f t) = True"
| "is_file_send c = False"

definition sent_files :: "api_call list \<Rightarrow> api_call list" where
  "sent_files calls = filter is_file_send calls"

section \<open>Properties of sequences of calls\<close>

text \<open>
  Each call is at least 2 seconds after the one before it, the first at least 2 seconds
  after \<open>t\<close>.
\<close>

fun spaced :: "real \<Rightarrow> (real \<times> api_call) list \<Rightarrow> bool" where
  "spaced t [] = True"
| "spaced t ((u, a) # es) = (2 \<le> u - t \<and> spaced u es)"

text \<open>Each call has a text other than the one before it, the first other than \<open>s\<close>.\<close>

fun alternating :: "string \<Rightarrow> (real \<times> api_call) list \<Rightarrow> bool" where
  "alternating s [] = True"
| "alternating s ((u, a) # es) = (call_text a \<noteq> s \<and> alternating (call_text a) es)"

section \<open>Concrete surroundings for the examples\<close>

text \<open>
  The builtin \<open>float\<close> on the strings the examples pass to it: five that it converts,
  and its \<open>ValueError\<close> on the empty string and on \<open>abc\<close>. The table stands for the builtin
  on these strings only.
\<close>

definition table_float :: "string \<Rightarrow> pyfloat option" where
  "table_float s =
     map_of [(''50.0'', Finite 50), (''100'', Finite 100), ('' 45.3'', Finite (453 / 10)),
             (''nan'', NaN), (''inf'', PosInf)] s"

definition example_py :: interpreter where
  "example_py = \<lparr>float_of = table_float, can_repeat = (\<lambda>n. n \<le> 1000)\<rparr>"

definition example_run :: "delivery list" where
  "example_run =
     [(1000, Returns 41, Downloading (Some ''50.0%'') (Some ''1MiB/s'') (Some ''00:10'')),
      (1001, Returns 41, Downloading (Some ''100%'') (Some ''1MiB/s'') (Some ''00:05'')),
      (1002, Raises (Error ''Timed out''), Downloading (Some ''100%'') (Some ''1MiB/s'') (Some ''00:05'')),
      (1004, Returns 41, Downloading (Some ''100%'') (Some ''1MiB/s'') (Some ''00:05'')),
      (1005, Returns 41, Downloading (Some ''abc'') None None),
      (1007, Returns 41, Downloading (Some ''abc'') None None)]"

definition example_world :: "(exn + (string option \<times> string)) \<Rightarrow> world" where
  "example_world library =
     \<lparr>mkdtemp = Inr ''/tmp/tmpk3x'', rmtree = None,
      extract_info = (\<lambda>l opts. library),
      path_exists = (\<lambda>f. f = ''/tmp/tmpk3x/Song.mp3''),
      open_file = (\<lambda>f. None),
      api = (\<lambda>c. None),
      others = (\<lambda>tbl. tbl)\<rparr>"

text \<open>
  A run in which the second event renders the text already shown: no call is made at
  1002, and the third event, 3.5 seconds after the only message, has a new text.
\<close>

definition stale_run :: "delivery list" where
  "stale_run =
     [(1000, Returns 41, Downloading (Some ''50.0%'') (Some ''1MiB/s'') (Some ''00:10'')),
      (1002, Returns 41, Downloading (Some ''50.0%'') (Some ''1MiB/s'') (Some ''00:10'')),
      (1003.5, Returns 41, Downloading (Some ''100%'') (Some ''1MiB/s'') (Some ''00:05''))]"

definition shown_at_1000 :: ProgressHook where
  "shown_at_1000 = final_hook example_py (new_hook 7) (take 1 stale_run)"

section \<open>Auxiliary facts\<close>

lemmas hook_eval =
  new_hook_def on_downloading_def progress_text_def try_bar_def example_py_def table_float_def
  remove_char_def str_mul_def Let_def uncaught_def bar_text_def fallback_text_def

subsection \<open>The string functions on the inputs of the program\<close>

lemma split_char_examples:
  "split_char CHR ''_'' ''format_mp3'' = [''format'', ''mp3'']"
  "split_char CHR ''_'' ''format_best[height<=720]'' = [''format'', ''best[height<=720]'']"
  "split_char CHR ''_'' ''format_a_b'' = [''format'', ''a'', ''b'']"
  "split_char CHR ''_'' ''format'' = [''format'']"
  "split_char CHR ''_'' [] = [[]]"
  by simp_all

lemma second_examples:
  "second (split_char CHR ''_'' ''format_mp3'') = Inr ''mp3''"
  "second (split_char CHR ''_'' ''format'') = Inl (Error ''list index out of range'')"
  by simp_all

lemma rsplit1_head_examples:
  "rsplit1_head CHR ''.'' ''/tmp/d/My.Song.webm'' = ''/tmp/d/My.Song''"
  "rsplit1_head CHR ''.'' ''/tmp/d/Song'' = ''/tmp/d/Song''"
  "rsplit1_head CHR ''.'' ''Song.'' = ''Song''"
  by (simp_all add: rsplit1_head_def)

lemma strip_examples:
  "strip (CHR 0x20 # CHR 0x09 # ''@news'' @ [CHR 0x0A]) = ''@news''"
  "strip ''a b'' = ''a b''"
  "strip ''  '' = []"
  by (simp_all add: strip_def isspace_def)

lemma contains_examples:
  "contains ''see https://www.youtube.com/watch?v=x'' ''youtube.com''"
  "contains ''https://youtu.be/x'' ''youtu.be''"
  "\<not> contains ''https://example.org/x'' ''youtube.com''"
  "\<not> contains ''https://example.org/x'' ''youtu.be''"
  by (simp_all add: startswith_def)

lemma endswith_examples:
  "endswith ''a.mp3'' ''.mp3''"
  "\<not> endswith ''a.MP3'' ''.mp3''"
  "\<not> endswith ''mp3'' ''.mp3''"
  "endswith ''.mp3'' ''.mp3''"
  by (simp_all add: endswith_def)

lemma progress_text_examples:
  "progress_text example_py ''50.0%'' ''1MiB/s'' ''00:10''
     = Inr (bar_text (concat (replicate 10 BAR_FULL) @ concat (replicate 10 BAR_EMPTY))
              ''50.0%'' ''1MiB/s'' ''00:10'')"
  "progress_text example_py '' 45.3%'' ''1MiB/s'' ''00:10''
     = Inr (bar_text (concat (replicate 9 BAR_FULL) @ concat (replicate 11 BAR_EMPTY))
              '' 45.3%'' ''1MiB/s'' ''00:10'')"
  "progress_text example_py ''inf'' ''1MiB/s'' ''00:10'' = Inr (fallback_text ''inf'' ''1MiB/s'' ''00:10'')"
  "progress_text example_py ''nan'' ''1MiB/s'' ''00:10'' = Inr (fallback_text ''nan'' ''1MiB/s'' ''00:10'')"
  "progress_text example_py ''abc'' ''1MiB/s'' ''00:10'' = Inr (fallback_text ''abc'' ''1MiB/s'' ''00:10'')"
  by (simp_all add: progress_text_def try_bar_def example_py_def table_float_def remove_char_def
        str_mul_def)

subsection \<open>The hook\<close>

lemma progress_text_total: "\<exists>t. progress_text py p s e = Inr t"
  by (auto simp: progress_text_def split: sum.splits)

lemma on_downloading_emit:
  assumes "on_downloading py t res p s e h = (h', Some a, x)"
  shows "2 \<le> t - last_update h \<and> last_update h' = t \<and>
         call_text a \<noteq> last_progress_text h \<and> last_progress_text h' = call_text a"
proof -
  obtain rendered where
    "progress_text py (case p of None \<Rightarrow> ''0%'' | Some x \<Rightarrow> x)
       (case s of None \<Rightarrow> ''N/A'' | Some x \<Rightarrow> x) (case e of None \<Rightarrow> ''N/A'' | Some x \<Rightarrow> x) = Inr rendered"
    using progress_text_total by blast
  with assms show ?thesis
    by (auto simp: on_downloading_def Let_def split: if_splits option.splits api_result.splits)
qed

lemma on_downloading_quiet:
  assumes "on_downloading py t res p s e h = (h', None, x)"
  shows "h' = h \<or> (2 \<le> t - last_update h \<and> h' = h\<lparr>last_update := t\<rparr>)"
proof -
  obtain rendered where
    "progress_text py (case p of None \<Rightarrow> ''0%'' | Some x \<Rightarrow> x)
       (case s of None \<Rightarrow> ''N/A'' | Some x \<Rightarrow> x) (case e of None \<Rightarrow> ''N/A'' | Some x \<Rightarrow> x) = Inr rendered"
    using progress_text_total by blast
  with assms show ?thesis
    by (auto simp: on_downloading_def Let_def split: if_splits option.splits api_result.splits)
qed

lemma spaced_mono: "spaced t es \<Longrightarrow> t' \<le> t \<Longrightarrow> spaced t' es"
  by (cases es) auto

lemma emissions_spaced:
  "\<forall>d \<in> set ds. is_downloading (snd (snd d)) \<Longrightarrow> spaced (last_update h) (emissions py h ds)"
proof (induction ds arbitrary: h)
  case Nil
  then show ?case by simp
next
  case (Cons d ds)
  obtain t res ev where d: "d = (t, res, ev)" by (cases d) auto
  with Cons.prems obtain p s e where ev: "ev = Downloading p s e" by (cases ev) auto
  obtain h' c x where step: "on_downloading py t res p s e h = (h', c, x)"
    by (cases "on_downloading py t res p s e h") auto
  have ih: "spaced (last_update h') (emissions py h' ds)"
    using Cons.IH Cons.prems by simp
  show ?case
  proof (cases c)
    case None
    with step have "last_update h \<le> last_update h'"
      using on_downloading_quiet[of py t res p s e h h' x] by auto
    with ih have "spaced (last_update h) (emissions py h' ds)" by (rule spaced_mono)
    with None step d ev show ?thesis by simp
  next
    case (Some a)
    with step have "2 \<le> t - last_update h" "last_update h' = t"
      using on_downloading_emit[of py t res p s e h h' a x] by auto
    with ih Some step d ev show ?thesis by simp
  qed
qed

lemma emissions_alternating:
  "\<forall>d \<in> set ds. is_downloading (snd (snd d)) \<Longrightarrow>
     alternating (last_progress_text h) (emissions py h ds)"
proof (induction ds arbitrary: h)
  case Nil
  then show ?case by simp
next
  case (Cons d ds)
  obtain t res ev where d: "d = (t, res, ev)" by (cases d) auto
  with Cons.prems obtain p s e where ev: "ev = Downloading p s e" by (cases ev) auto
  obtain h' c x where step: "on_downloading py t res p s e h = (h', c, x)"
    by (cases "on_downloading py t res p s e h") auto
  have ih: "alternating (last_progress_text h') (emissions py h' ds)"
    using Cons.IH Cons.prems by simp
  show ?case
  proof (cases c)
    case None
    with step have "last_progress_text h' = last_progress_text h"
      using on_downloading_quiet[of py t res p s e h h' x] by auto
    with ih None step d ev show ?thesis by simp
  next
    case (Some a)
    with step have "call_text a \<noteq> last_progress_text h" "last_progress_text h' = call_text a"
      using on_downloading_emit[of py t res p s e h h' a x] by auto
    with ih Some step d ev show ?thesis by simp
  qed
qed

lemma spaced_lower: "spaced t es \<Longrightarrow> k < length es \<Longrightarrow> t + 2 \<le> fst (es ! k)"
proof (induction es arbitrary: t k)
  case Nil
  then show ?case by simp
next
  case (Cons x es)
  obtain u a where x: "x = (u, a)" by (cases x) auto
  show ?case
  proof (cases k)
    case 0
    with Cons.prems x show ?thesis by simp
  next
    case (Suc m)
    with Cons.prems x have "u + 2 \<le> fst (es ! m)" using Cons.IH[of u m] by simp
    moreover from Cons.prems x have "2 \<le> u - t" by simp
    ultimately show ?thesis using Suc by simp
  qed
qed

lemma spaced_nth:
  "spaced t es \<Longrightarrow> i < j \<Longrightarrow> j < length es \<Longrightarrow> 2 \<le> fst (es ! j) - fst (es ! i)"
proof (induction es arbitrary: t i j)
  case Nil
  then show ?case by simp
next
  case (Cons x es)
  obtain u a where x: "x = (u, a)" by (cases x) auto
  obtain j' where j: "j = Suc j'" using Cons.prems(2) by (cases j) auto
  show ?case
  proof (cases i)
    case 0
    from Cons.prems x j have "u + 2 \<le> fst (es ! j')" using spaced_lower[of u es j'] by simp
    with 0 j x show ?thesis by simp
  next
    case (Suc i')
    with Cons.prems x j show ?thesis using Cons.IH[of u i' j'] by simp
  qed
qed

lemma alternating_nth:
  "alternating s es \<Longrightarrow> Suc i < length es \<Longrightarrow>
     call_text (snd (es ! i)) \<noteq> call_text (snd (es ! Suc i))"
proof (induction es arbitrary: s i)
  case Nil
  then show ?case by simp
next
  case (Cons x es)
  obtain u a where x: "x = (u, a)" by (cases x) auto
  show ?case
  proof (cases i)
    case 0
    with Cons.prems x obtain v b es' where "es = (v, b) # es'" by (cases es) auto
    with Cons.prems x 0 show ?thesis by auto
  next
    case (Suc i')
    with Cons.prems x show ?thesis using Cons.IH[of "call_text a" i'] by simp
  qed
qed

lemma example_run_calls:
  "map fst (emissions example_py (new_hook 7) example_run) = [1000, 1002, 1007]"
  by (simp add: example_run_def hook_eval)

lemma stale_run_calls:
  "map fst (emissions example_py (new_hook 7) stale_run) = [1000]"
  by (simp add: stale_run_def hook_eval)

section \<open>The progress hook: claims C2, C6 and C10\<close>

text \<open>
  Claim C6. For every percent string (the empty string and the non-numeric ones
  included) rendering the progress text raises nothing: it always returns a text. When
  \<open>float\<close> fails on the percent with its \<open>%\<close> signs removed, the text is the plain
  fallback display, which is never a text with the bar.
\<close>

theorem progress_text_never_raises:
  "(\<exists>t. progress_text py percent speed eta = Inr t) \<and>
   (float_of py (remove_char CHR ''%'' percent) = None \<longrightarrow>
      progress_text py percent speed eta = Inr (fallback_text percent speed eta)) \<and>
   fallback_text percent speed eta \<noteq> bar_text progress_bar percent speed eta"
  by (auto simp: progress_text_def try_bar_def fallback_text_def bar_text_def ICON_DOWNLOAD_def
        split: sum.splits)

theorem progress_text_never_raises_witness:
  "float_of example_py (remove_char CHR ''%'' '''') = None \<and>
   progress_text example_py '''' ''1MiB/s'' ''00:10'' = Inr (fallback_text '''' ''1MiB/s'' ''00:10'')"
  using progress_text_never_raises[of example_py "''''" "''1MiB/s''" "''00:10''"]
  by (simp add: example_py_def table_float_def remove_char_def)

text \<open>
  Claim C2. Feed one hook any sequence of \<open>downloading\<close> events, at any clock readings
  and with any answers of the platform. Any two of the calls it makes to the platform
  (\<open>send_message\<close> or \<open>edit_message_text\<close>) are at least 2 seconds apart, so no window of
  2 seconds holds two of them, and two consecutive calls never carry the same text. A
  call counts as made whether the platform accepts it or raises.
\<close>

theorem hook_rate_limit:
  assumes "\<forall>d \<in> set ds. is_downloading (snd (snd d))"
  shows "(\<forall>i j. i < j \<and> j < length (emissions py h ds) \<longrightarrow>
            2 \<le> fst (emissions py h ds ! j) - fst (emissions py h ds ! i)) \<and>
         (\<forall>i. Suc i < length (emissions py h ds) \<longrightarrow>
            call_text (snd (emissions py h ds ! i)) \<noteq> call_text (snd (emissions py h ds ! Suc i)))"
proof (intro conjI allI impI)
  fix i j
  assume "i < j \<and> j < length (emissions py h ds)"
  then show "2 \<le> fst (emissions py h ds ! j) - fst (emissions py h ds ! i)"
    using spaced_nth[OF emissions_spaced[OF assms, of h py], of i j] by simp
next
  fix i
  assume "Suc i < length (emissions py h ds)"
  then show "call_text (snd (emissions py h ds ! i)) \<noteq> call_text (snd (emissions py h ds ! Suc i))"
    using alternating_nth[OF emissions_alternating[OF assms, of h py], of i] by simp
qed

theorem hook_rate_limit_witness:
  "list_all (\<lambda>d. is_downloading (snd (snd d))) example_run \<and>
   map fst (emissions example_py (new_hook 7) example_run) = [1000, 1002, 1007] \<and>
   2 \<le> fst (emissions example_py (new_hook 7) example_run ! Suc 0)
         - fst (emissions example_py (new_hook 7) example_run ! 0) \<and>
   call_text (snd (emissions example_py (new_hook 7) example_run ! 0))
     \<noteq> call_text (snd (emissions example_py (new_hook 7) example_run ! Suc 0))"
proof -
  have downloading: "\<forall>d \<in> set example_run. is_downloading (snd (snd d))"
    by (simp add: example_run_def)
  have "length (map fst (emissions example_py (new_hook 7) example_run)) = 3"
    by (simp only: example_run_calls) simp
  then have three: "length (emissions example_py (new_hook 7) example_run) = 3"
    by simp
  show ?thesis
    using downloading example_run_calls three
      hook_rate_limit[OF downloading, of example_py "new_hook 7"]
    by (auto simp del: emissions.simps simp: list_all_iff)
qed

text \<open>
  Claim C10. A \<open>downloading\<close> event that reaches the hook at least 2 seconds after the
  recorded timestamp sets the timestamp to the current time whatever happens next:
  a call that succeeds, a call that the platform rejects, or no call at all because
  the text is unchanged. So an event less than 2 seconds later is dropped, whatever
  its text and however long ago the last message was shown.
\<close>

theorem timestamp_advances_without_emission:
  assumes "2 \<le> t1 - last_update h"
    and "hook_call py t1 res1 (Downloading p1 s1 e1) h = (h1, c1, x1)"
    and "t2 - t1 < 2"
  shows "last_update h1 = t1 \<and>
         hook_call py t2 res2 (Downloading p2 s2 e2) h1 = (h1, None, None)"
proof -
  obtain rendered where
    "progress_text py (case p1 of None \<Rightarrow> ''0%'' | Some x \<Rightarrow> x)
       (case s1 of None \<Rightarrow> ''N/A'' | Some x \<Rightarrow> x) (case e1 of None \<Rightarrow> ''N/A'' | Some x \<Rightarrow> x) = Inr rendered"
    using progress_text_total by blast
  with assms(1,2) have "last_update h1 = t1"
    by (auto simp: on_downloading_def Let_def split: if_splits option.splits api_result.splits)
  with assms(3) show ?thesis by (simp add: on_downloading_def)
qed

theorem timestamp_advances_without_emission_witness:
  "last_update shown_at_1000 = 1000 \<and>
   message_id shown_at_1000 = Some 41 \<and>
   hook_call example_py 1002 (Returns 41)
       (Downloading (Some ''50.0%'') (Some ''1MiB/s'') (Some ''00:10'')) shown_at_1000
     = (shown_at_1000\<lparr>last_update := 1002\<rparr>, None, None) \<and>
   (2::real) < 1003.5 - 1000 \<and>
   hook_call example_py 1003.5 (Returns 41)
       (Downloading (Some ''100%'') (Some ''1MiB/s'') (Some ''00:05''))
       (shown_at_1000\<lparr>last_update := 1002\<rparr>)
     = (shown_at_1000\<lparr>last_update := 1002\<rparr>, None, None) \<and>
   progress_text example_py ''100%'' ''1MiB/s'' ''00:05''
     \<noteq> Inr (last_progress_text (shown_at_1000\<lparr>last_update := 1002\<rparr>))"
proof -
  have first: "2 \<le> (1002::real) - last_update shown_at_1000"
    by (simp add: shown_at_1000_def stale_run_def hook_eval)
  have second: "hook_call example_py 1002 (Returns 41)
       (Downloading (Some ''50.0%'') (Some ''1MiB/s'') (Some ''00:10'')) shown_at_1000
     = (shown_at_1000\<lparr>last_update := 1002\<rparr>, None, None)"
    by (simp add: shown_at_1000_def stale_run_def hook_eval)
  have third: "(1003.5::real) - 1002 < 2" by simp
  show ?thesis
    using second
      timestamp_advances_without_emission[OF first second third,
        of "Returns 41" "Some ''100%''" "Some ''1MiB/s''" "Some ''00:05''"]
    by (simp add: shown_at_1000_def stale_run_def hook_eval)
qed

section \<open>process\_download: claims C1, C3 and C4\<close>

lemma endswith_iff: "endswith s suf = (\<exists>p. s = p @ suf)"
proof
  assume "endswith s suf"
  then have "s = take (length s - length suf) s @ suf"
    by (metis append_take_drop_id endswith_def)
  then show "\<exists>p. s = p @ suf" ..
next
  assume "\<exists>p. s = p @ suf"
  then show "endswith s suf" by (auto simp: endswith_def)
qed

lemma endswith_last: "endswith s suf \<Longrightarrow> suf \<noteq> [] \<Longrightarrow> last s = last suf"
  by (auto simp: endswith_iff)

lemma video_not_mp3:
  "endswith f ''.mp4'' \<or> endswith f ''.webm'' \<or> endswith f ''.mkv'' \<Longrightarrow> \<not> endswith f ''.mp3''"
  by (auto dest!: endswith_last)

lemma is_file_send_send_file: "is_file_send (send_file uid f t)"
  by (simp add: send_file_def)

lemma not_file_send_error_call: "\<not> is_file_send (error_call uid e)"
  by (simp add: error_call_def)

lemma sent_files_process_download:
  assumes "mkdtemp w = Inr d"
    and "extract_info w link (build_opts d format_key) = Inr (info_title, fn0)"
  shows "sent_files (fst (process_download w uid link format_key tbl)) =
           (if open_file w (output_filename w format_key fn0) = None
            then [send_file uid (output_filename w format_key fn0)
                    (case info_title of None \<Rightarrow> ''video'' | Some t \<Rightarrow> t)]
            else [])"
  using assms
  by (auto simp: process_download_def try_body_def download_and_send_def sent_files_def Let_def
        is_file_send_send_file not_file_send_error_call split: option.splits prod.splits)

lemma cleanup_removes: "cleanup uid tbl uid = None"
  by (auto simp: cleanup_def)

lemmas download_eval =
  process_download_def try_body_def download_and_send_def example_world_def output_filename_def
  rsplit1_head_def send_file_def endswith_def build_opts_def error_call_def cleanup_def
  sent_files_def Let_def

text \<open>
  Claim C1. Whenever a call of \<open>process_download\<close> returns, the session table has no
  entry for the user, whatever the other tasks did to the table in the meantime. And it
  does return in each of the three endings of the claim: when the download succeeds,
  when the library raises \<open>DownloadError\<close>, and when anything raises another
  \<open>Exception\<close> (the message to the user included). Only a \<open>BaseException\<close> outside
  \<open>Exception\<close> leaves the call without a return.
\<close>

theorem session_removed_on_return:
  "(\<forall>calls tbl'. process_download w uid link format_key tbl = (calls, Returned, tbl')
       \<longrightarrow> tbl' uid = None) \<and>
   (only_Exceptions w \<longrightarrow>
      (\<exists>calls tbl'. process_download w uid link format_key tbl = (calls, Returned, tbl')))"
proof (intro conjI allI impI)
  fix calls tbl'
  assume "process_download w uid link format_key tbl = (calls, Returned, tbl')"
  then have "tbl' = cleanup uid (others w tbl)"
    by (auto simp: process_download_def split: prod.splits option.splits if_splits)
  then show "tbl' uid = None" by (simp add: cleanup_removes)
next
  assume ok: "only_Exceptions w"
  obtain calls r where tb: "try_body w uid link format_key = (calls, r)"
    by (cases "try_body w uid link format_key") auto
  have r_ok: "\<And>e. r = Some e \<Longrightarrow> is_Exception e"
    using tb ok
    by (auto simp: try_body_def download_and_send_def only_Exceptions_def Let_def
          split: sum.splits prod.splits option.splits)
  show "\<exists>calls tbl'. process_download w uid link format_key tbl = (calls, Returned, tbl')"
    using tb r_ok ok
    by (auto simp: process_download_def only_Exceptions_def split: option.splits)
qed

theorem session_removed_on_return_witness:
  "only_Exceptions (example_world (Inl (DownloadError ''ERROR: Video unavailable''))) \<and>
   [7 \<mapsto> \<lparr>url = ''https://youtu.be/abc'', format = Some ''best''\<rparr>] 7 \<noteq> None \<and>
   fst (snd (process_download (example_world (Inl (DownloadError ''ERROR: Video unavailable'')))
              7 ''https://youtu.be/abc'' ''best''
              [7 \<mapsto> \<lparr>url = ''https://youtu.be/abc'', format = Some ''best''\<rparr>])) = Returned \<and>
   snd (snd (process_download (example_world (Inl (DownloadError ''ERROR: Video unavailable'')))
              7 ''https://youtu.be/abc'' ''best''
              [7 \<mapsto> \<lparr>url = ''https://youtu.be/abc'', format = Some ''best''\<rparr>])) 7 = None"
proof -
  have only: "only_Exceptions (example_world (Inl (DownloadError ''ERROR: Video unavailable'')))"
    by (simp add: only_Exceptions_def example_world_def)
  obtain calls e tbl' where run:
    "process_download (example_world (Inl (DownloadError ''ERROR: Video unavailable'')))
       7 ''https://youtu.be/abc'' ''best''
       [7 \<mapsto> \<lparr>url = ''https://youtu.be/abc'', format = Some ''best''\<rparr>] = (calls, e, tbl')"
    using prod_cases3 by blast
  have "e = Returned"
    using run by (simp add: download_eval)
  with run only
    session_removed_on_return[of
      "example_world (Inl (DownloadError ''ERROR: Video unavailable''))" 7
      "''https://youtu.be/abc''" "''best''"
      "[7 \<mapsto> \<lparr>url = ''https://youtu.be/abc'', format = Some ''best''\<rparr>]"]
  show ?thesis by simp
qed

text \<open>
  Claim C3. With the format key \<open>mp3\<close>, when the library reports a file name and the
  \<open>.mp3\<close> sibling of that name exists, the file chosen is the sibling: its name ends in
  \<open>.mp3\<close>, and the only file the call sends (it sends it when the file opens) is that
  sibling, through \<open>send_audio\<close>.
\<close>

theorem mp3_sibling_sent_as_audio:
  assumes "mkdtemp w = Inr d"
    and "extract_info w link (build_opts d ''mp3'') = Inr (info_title, fn0)"
    and "path_exists w (rsplit1_head CHR ''.'' fn0 @ ''.mp3'')"
  shows "output_filename w ''mp3'' fn0 = rsplit1_head CHR ''.'' fn0 @ ''.mp3'' \<and>
         endswith (output_filename w ''mp3'' fn0) ''.mp3'' \<and>
         sent_files (fst (process_download w uid link ''mp3'' tbl)) =
           (if open_file w (rsplit1_head CHR ''.'' fn0 @ ''.mp3'') = None
            then [SendAudio uid (rsplit1_head CHR ''.'' fn0 @ ''.mp3'')
                    (case info_title of None \<Rightarrow> ''video'' | Some t \<Rightarrow> t)]
            else [])"
proof -
  have name: "output_filename w ''mp3'' fn0 = rsplit1_head CHR ''.'' fn0 @ ''.mp3''"
    using assms(3) by (simp add: output_filename_def)
  have ends: "endswith (rsplit1_head CHR ''.'' fn0 @ ''.mp3'') ''.mp3''"
    by (auto simp: endswith_iff)
  then have "send_file uid (rsplit1_head CHR ''.'' fn0 @ ''.mp3'')
               (case info_title of None \<Rightarrow> ''video'' | Some t \<Rightarrow> t)
             = SendAudio uid (rsplit1_head CHR ''.'' fn0 @ ''.mp3'')
                 (case info_title of None \<Rightarrow> ''video'' | Some t \<Rightarrow> t)"
    by (simp add: send_file_def)
  with name ends sent_files_process_download[OF assms(1,2), of uid tbl]
  show ?thesis by simp
qed

theorem mp3_sibling_sent_as_audio_witness:
  "mkdtemp (example_world (Inr (Some ''Song'', ''/tmp/tmpk3x/Song.webm''))) = Inr ''/tmp/tmpk3x'' \<and>
   path_exists (example_world (Inr (Some ''Song'', ''/tmp/tmpk3x/Song.webm'')))
     (rsplit1_head CHR ''.'' ''/tmp/tmpk3x/Song.webm'' @ ''.mp3'') \<and>
   sent_files (fst (process_download (example_world (Inr (Some ''Song'', ''/tmp/tmpk3x/Song.webm'')))
                      7 ''https://youtu.be/abc'' ''mp3'' Map.empty))
     = [SendAudio 7 ''/tmp/tmpk3x/Song.mp3'' ''Song'']"
proof -
  have dir: "mkdtemp (example_world (Inr (Some ''Song'', ''/tmp/tmpk3x/Song.webm''))) = Inr ''/tmp/tmpk3x''"
    by (simp add: example_world_def)
  have lib: "extract_info (example_world (Inr (Some ''Song'', ''/tmp/tmpk3x/Song.webm'')))
               ''https://youtu.be/abc'' (build_opts ''/tmp/tmpk3x'' ''mp3'')
             = Inr (Some ''Song'', ''/tmp/tmpk3x/Song.webm'')"
    by (simp add: example_world_def)
  have sibling: "rsplit1_head CHR ''.'' ''/tmp/tmpk3x/Song.webm'' @ ''.mp3'' = ''/tmp/tmpk3x/Song.mp3''"
    by (simp add: rsplit1_head_def)
  have there: "path_exists (example_world (Inr (Some ''Song'', ''/tmp/tmpk3x/Song.webm'')))
                 (rsplit1_head CHR ''.'' ''/tmp/tmpk3x/Song.webm'' @ ''.mp3'')"
    by (simp only: sibling) (simp add: example_world_def)
  show ?thesis
    using dir there sibling mp3_sibling_sent_as_audio[OF dir lib there, of 7 Map.empty]
    by (simp add: example_world_def)
qed

text \<open>
  Claim C4. When the download gives a file name and the file opens, the call sends
  exactly one file, by the call that the extension of the name selects: \<open>send_audio\<close>
  for a name ending in \<open>.mp3\<close>; \<open>send_video\<close> for one ending in \<open>.mp4\<close>, \<open>.webm\<close> or
  \<open>.mkv\<close>; \<open>send_document\<close> for every other name.
\<close>

theorem message_kind_by_extension:
  assumes "mkdtemp w = Inr d"
    and "extract_info w link (build_opts d format_key) = Inr (info_title, fn0)"
    and "f = output_filename w format_key fn0"
    and "title = (case info_title of None \<Rightarrow> ''video'' | Some t \<Rightarrow> t)"
    and "open_file w f = None"
  shows "sent_files (fst (process_download w uid link format_key tbl)) = [send_file uid f title] \<and>
         (endswith f ''.mp3'' \<longrightarrow> send_file uid f title = SendAudio uid f title) \<and>
         (endswith f ''.mp4'' \<or> endswith f ''.webm'' \<or> endswith f ''.mkv''
            \<longrightarrow> send_file uid f title = SendVideo uid f title) \<and>
         (\<not> endswith f ''.mp3'' \<and> \<not> endswith f ''.mp4'' \<and> \<not> endswith f ''.webm''
            \<and> \<not> endswith f ''.mkv'' \<longrightarrow> send_file uid f title = SendDocument uid f title)"
proof -
  have "sent_files (fst (process_download w uid link format_key tbl)) = [send_file uid f title]"
    using sent_files_process_download[OF assms(1,2), of uid tbl] assms(3,4,5) by simp
  moreover have "endswith f ''.mp3'' \<longrightarrow> send_file uid f title = SendAudio uid f title"
    by (simp add: send_file_def)
  moreover have "endswith f ''.mp4'' \<or> endswith f ''.webm'' \<or> endswith f ''.mkv''
                   \<longrightarrow> send_file uid f title = SendVideo uid f title"
    using video_not_mp3[of f] by (auto simp: send_file_def)
  moreover have "\<not> endswith f ''.mp3'' \<and> \<not> endswith f ''.mp4'' \<and> \<not> endswith f ''.webm''
                   \<and> \<not> endswith f ''.mkv'' \<longrightarrow> send_file uid f title = SendDocument uid f title"
    by (simp add: send_file_def)
  ultimately show ?thesis by blast
qed

theorem message_kind_by_extension_witness:
  "endswith ''/tmp/tmpk3x/Clip.mkv'' ''.mkv'' \<and>
   sent_files (fst (process_download (example_world (Inr (None, ''/tmp/tmpk3x/Clip.mkv'')))
                      7 ''https://youtu.be/abc'' ''best[height<=720]'' Map.empty))
     = [SendVideo 7 ''/tmp/tmpk3x/Clip.mkv'' ''video'']"
proof -
  have dir: "mkdtemp (example_world (Inr (None, ''/tmp/tmpk3x/Clip.mkv''))) = Inr ''/tmp/tmpk3x''"
    by (simp add: example_world_def)
  have lib: "extract_info (example_world (Inr (None, ''/tmp/tmpk3x/Clip.mkv'')))
               ''https://youtu.be/abc'' (build_opts ''/tmp/tmpk3x'' ''best[height<=720]'')
             = Inr (None, ''/tmp/tmpk3x/Clip.mkv'')"
    by (simp add: example_world_def)
  have name: "''/tmp/tmpk3x/Clip.mkv''
      = output_filename (example_world (Inr (None, ''/tmp/tmpk3x/Clip.mkv''))) ''best[height<=720]''
          ''/tmp/tmpk3x/Clip.mkv''"
    by (simp add: output_filename_def)
  have title: "''video'' = (case (None :: string option) of None \<Rightarrow> ''video'' | Some t \<Rightarrow> t)"
    by simp
  have opens: "open_file (example_world (Inr (None, ''/tmp/tmpk3x/Clip.mkv''))) ''/tmp/tmpk3x/Clip.mkv'' = None"
    by (simp add: example_world_def)
  have ext: "endswith ''/tmp/tmpk3x/Clip.mkv'' ''.mkv''"
    by (simp add: endswith_def)
  show ?thesis
    using ext message_kind_by_extension[OF dir lib name title opens, of 7 Map.empty]
    by simp
qed

section \<open>The session table: claim C5\<close>

lemma split_char_none: "c \<notin> set s \<Longrightarrow> split_char c s = [s]"
  by (induction s) auto

lemma split_char_nonempty: "split_char c s \<noteq> []"
  by (induction s) (auto split: list.splits)

lemma callback_fields: "split_char CHR ''_'' (''format_'' @ f) = ''format'' # split_char CHR ''_'' f"
  using split_char_nonempty[of "CHR ''_''" f]
  by (cases "split_char CHR ''_'' f") auto

lemma callback_key: "\<exists>k. second (split_char CHR ''_'' (''format_'' @ f)) = Inr k"
  using split_char_nonempty[of "CHR ''_''" f]
  by (cases "split_char CHR ''_'' f") (auto simp: callback_fields)

lemma callback_key_plain:
  "CHR ''_'' \<notin> set f \<Longrightarrow> second (split_char CHR ''_'' (''format_'' @ f)) = Inr f"
  by (simp add: callback_fields split_char_none)

lemma catalog_keys_plain: "\<forall>k \<in> set (map fst FORMATS). CHR ''_'' \<notin> set k"
  by (simp add: FORMATS_def)

text \<open>
  Claim C5. Storing a url for a user (line 285) and then a format (lines 306 to 311)
  leaves the table with exactly that url and that format for the user, every other
  entry as before. Through the two handlers: a message with a YouTube url, then the
  button of a format key (the keys of the catalog have no underscore), leave the entry
  with the stripped text and the key. Selecting a format for a user without an entry
  takes the not-found branch: once \<open>query.answer()\<close> has returned, the handler shows
  the session-expired text, starts no download and leaves the table as it is.
\<close>

theorem session_round_trip:
  "(\<exists>tbl'. set_format uid f (put uid link tbl) = Some (link, tbl') \<and>
           tbl' uid = Some \<lparr>url = link, format = Some f\<rparr> \<and>
           (\<forall>v. v \<noteq> uid \<longrightarrow> tbl' v = tbl v)) \<and>
   ((contains (strip message_text) ''youtube.com'' \<or> contains (strip message_text) ''youtu.be'')
      \<and> CHR ''_'' \<notin> set f \<longrightarrow>
      format_button None None uid (''format_'' @ f) (snd (handle_message uid message_text tbl))
        = ([EditQuery (''Selected: '' @ (case map_of FORMATS f of None \<Rightarrow> f | Some n \<Rightarrow> n)
                        @ NL @ ''Starting download...'')],
           None, Some (uid, strip message_text, f),
           tbl(uid \<mapsto> \<lparr>url = strip message_text, format = Some f\<rparr>))) \<and>
   (tbl uid = None \<longrightarrow>
      set_format uid f tbl = None \<and>
      format_button None edited uid (''format_'' @ f) tbl
        = ([EditQuery ''Session expired. Please send the URL again.''], None, None, tbl))"
proof (intro conjI impI)
  show "\<exists>tbl'. set_format uid f (put uid link tbl) = Some (link, tbl') \<and>
           tbl' uid = Some \<lparr>url = link, format = Some f\<rparr> \<and>
           (\<forall>v. v \<noteq> uid \<longrightarrow> tbl' v = tbl v)"
    by (simp add: set_format_def put_def)
next
  assume a: "(contains (strip message_text) ''youtube.com'' \<or> contains (strip message_text) ''youtu.be'')
      \<and> CHR ''_'' \<notin> set f"
  then have key: "second (split_char CHR ''_'' (''format_'' @ f)) = Inr f"
    using callback_key_plain by blast
  from a have tbl1: "snd (handle_message uid message_text tbl) = put uid (strip message_text) tbl"
    by (auto simp: handle_message_def Let_def)
  show "format_button None None uid (''format_'' @ f) (snd (handle_message uid message_text tbl))
        = ([EditQuery (''Selected: '' @ (case map_of FORMATS f of None \<Rightarrow> f | Some n \<Rightarrow> n)
                        @ NL @ ''Starting download...'')],
           None, Some (uid, strip message_text, f),
           tbl(uid \<mapsto> \<lparr>url = strip message_text, format = Some f\<rparr>))"
    unfolding tbl1 format_button_def
    by (simp only: key) (simp add: set_format_def put_def Let_def)
next
  assume "tbl uid = None"
  then show "set_format uid f tbl = None" by (simp add: set_format_def)
next
  assume none: "tbl uid = None"
  obtain k where key: "second (split_char CHR ''_'' (''format_'' @ f)) = Inr k"
    using callback_key by blast
  show "format_button None edited uid (''format_'' @ f) tbl
        = ([EditQuery ''Session expired. Please send the URL again.''], None, None, tbl)"
    unfolding format_button_def
    by (simp only: key) (simp add: set_format_def none)
qed

theorem session_round_trip_witness:
  "contains (strip '' https://youtu.be/abc123 '') ''youtu.be'' \<and>
   CHR ''_'' \<notin> set ''mp3'' \<and>
   format_button None None 7 ''format_mp3'' (snd (handle_message 7 '' https://youtu.be/abc123 '' Map.empty))
     = ([EditQuery (''Selected: MP3 Audio'' @ NL @ ''Starting download...'')],
        None, Some (7, ''https://youtu.be/abc123'', ''mp3''),
        [7 \<mapsto> \<lparr>url = ''https://youtu.be/abc123'', format = Some ''mp3''\<rparr>]) \<and>
   (Map.empty :: sessions) 7 = None \<and>
   format_button None None 7 ''format_mp3'' Map.empty
     = ([EditQuery ''Session expired. Please send the URL again.''], None, None, Map.empty)"
proof -
  have stripped: "strip '' https://youtu.be/abc123 '' = ''https://youtu.be/abc123''"
    by (simp add: strip_def isspace_def)
  have found: "contains ''https://youtu.be/abc123'' ''youtu.be''"
    by (simp add: startswith_def)
  show ?thesis
    using stripped found
      session_round_trip[of 7 "''mp3''" "''x''" Map.empty "'' https://youtu.be/abc123 ''" None]
    by (simp add: FORMATS_def)
qed

section \<open>The configuration store: claims C7, C8 and C9\<close>

lemma has_key_obj: "has_key c k \<Longrightarrow> \<exists>kvs. c = JObj kvs \<and> k \<in> set (map fst kvs)"
  by (cases c) (auto simp: map_of_eq_None_iff)

lemma save_config_default: "default_channel (save_config w c st) = default_channel st"
  by (cases w) (auto simp: save_config_def)

lemma dropWhile_none: "\<forall>c \<in> set s. \<not> P c \<Longrightarrow> dropWhile P s = s"
  by (cases s) auto

lemma strip_plain: "\<forall>c \<in> set s. \<not> isspace c \<Longrightarrow> strip s = s"
  by (simp add: strip_def dropWhile_none)

lemmas config_eval =
  loaded_def load_config_def save_config_def config_value_def DEFAULT_CONFIG_def
  initial_store_def

lemma loaded_record:
  assumes "config_file st = Parsed (JObj kvs)"
  shows "loaded w st =
           JObj (if ''required_channel'' \<in> fst ` set kvs then kvs
                 else AList.update ''required_channel'' (JStr (default_channel st)) kvs)"
  using assms by (auto simp: config_eval split: bool.splits)

lemma map_of_present: "k \<in> fst ` set kvs \<Longrightarrow> \<exists>v. map_of kvs k = Some v"
  by (cases "map_of kvs k") (auto simp: map_of_eq_None_iff)

lemma lookup_loaded_record:
  assumes "config_file st = Parsed (JObj kvs)"
  shows "lookup (loaded w st) k =
           (if k = ''required_channel''
            then (case map_of kvs ''required_channel'' of
                    None \<Rightarrow> Some (JStr (default_channel st))
                  | Some v \<Rightarrow> Some v)
            else map_of kvs k)"
proof (cases "''required_channel'' \<in> fst ` set kvs")
  case True
  then obtain v where "map_of kvs ''required_channel'' = Some v"
    using map_of_present by fastforce
  with True loaded_record[OF assms, of w] show ?thesis by simp
next
  case False
  then have "map_of kvs ''required_channel'' = None"
    by (simp add: map_of_eq_None_iff)
  with False loaded_record[OF assms, of w] show ?thesis by (simp add: update_conv')
qed

lemma has_key_lookup: "has_key c k = (lookup c k \<noteq> None)"
  by (cases c) auto

text \<open>
  A file whose text is not a record: the loop of lines 46 to 48 raises on it and the
  default is returned, unless the text is a list or a string on which the test
  \<open>key not in config\<close> is false; that value is returned as it is.
\<close>

lemma loaded_not_a_record:
  "loaded w (st\<lparr>config_file := Parsed JNull\<rparr>) = JObj (DEFAULT_CONFIG st)"
  "loaded w (st\<lparr>config_file := Parsed (JNum n)\<rparr>) = JObj (DEFAULT_CONFIG st)"
  "loaded w (st\<lparr>config_file := Parsed (JList [])\<rparr>) = JObj (DEFAULT_CONFIG st)"
  "loaded w (st\<lparr>config_file := Parsed (JList [JStr ''required_channel''])\<rparr>)
     = JList [JStr ''required_channel'']"
  by (simp_all add: config_eval)

text \<open>
  Claim C7, as stated, fails: a configuration without the key \<open>required_channel\<close> does
  not come back from the file as it was saved, since \<open>load_config\<close> adds the key. Saving
  the empty dict and loading gives the dict with the default channel.
\<close>

theorem save_load_round_trip_counterexample:
  "loaded Written (save_config Written (JObj []) (initial_store Absent ''@news''))
     = JObj [(''required_channel'', JStr ''@news'')] \<and>
   loaded Written (save_config Written (JObj []) (initial_store Absent ''@news'')) \<noteq> JObj []"
  by (simp add: config_eval)

text \<open>
  Claim C7, amended. For every configuration that has the key \<open>required_channel\<close>,
  \<open>save_config\<close> with a successful write followed by \<open>load_config\<close> returns that
  configuration, whatever else it holds.
\<close>

theorem save_load_round_trip:
  assumes "has_key c ''required_channel''"
  shows "loaded w (save_config Written c st) = c"
proof -
  obtain kvs where c: "c = JObj kvs" and k: "''required_channel'' \<in> set (map fst kvs)"
    using has_key_obj[OF assms] by blast
  then show ?thesis
    by (simp add: config_eval)
qed

theorem save_load_round_trip_witness:
  "has_key (JObj [(''required_channel'', JStr ''@films''), (''theme'', JStr ''dark'')]) ''required_channel'' \<and>
   loaded Written
     (save_config Written (JObj [(''required_channel'', JStr ''@films''), (''theme'', JStr ''dark'')])
        (initial_store Absent ''@news''))
     = JObj [(''required_channel'', JStr ''@films''), (''theme'', JStr ''dark'')]"
proof -
  have key: "has_key (JObj [(''required_channel'', JStr ''@films''), (''theme'', JStr ''dark'')])
               ''required_channel''"
    by simp
  show ?thesis
    using key save_load_round_trip[OF key, of Written "initial_store Absent ''@news''"]
    by simp
qed

text \<open>
  What \<open>load_config\<close> does give. Whatever the file is (absent, unreadable or
  unparseable, or parsed), the test \<open>'required_channel' in load_config()\<close> is true.
  When the file is absent or does not load, the result is the default configuration.
  When the file holds a record (a JSON object), the result is a record with the key:
  its stored value when the record has one, the default value when it has none, and
  every other key as stored.
\<close>

theorem load_backfills_required_channel:
  "py_in ''required_channel'' (loaded w st) = Inr True \<and>
   (config_file st = Absent \<or> config_file st = Unreadable \<longrightarrow>
      loaded w st = JObj [(''required_channel'', JStr (default_channel st))]) \<and>
   (\<forall>kvs. config_file st = Parsed (JObj kvs) \<longrightarrow>
      has_key (loaded w st) ''required_channel'' \<and>
      lookup (loaded w st) ''required_channel''
        = (case map_of kvs ''required_channel'' of
             None \<Rightarrow> Some (JStr (default_channel st))
           | Some v \<Rightarrow> Some v) \<and>
      (\<forall>k. k \<noteq> ''required_channel'' \<longrightarrow> lookup (loaded w st) k = map_of kvs k))"
proof (intro conjI allI impI)
  show "py_in ''required_channel'' (loaded w st) = Inr True"
  proof (cases "config_file st")
    case Absent
    then show ?thesis by (simp add: config_eval split: write_outcome.splits)
  next
    case Unreadable
    then show ?thesis by (simp add: config_eval)
  next
    case (Parsed c)
    then show ?thesis
      by (cases c) (auto simp: config_eval dom_update split: bool.splits)
  qed
next
  assume "config_file st = Absent \<or> config_file st = Unreadable"
  then show "loaded w st = JObj [(''required_channel'', JStr (default_channel st))]"
    by (auto simp: config_eval split: write_outcome.splits)
next
  fix kvs
  assume "config_file st = Parsed (JObj kvs)"
  from lookup_loaded_record[OF this, of w "''required_channel''"]
  show "has_key (loaded w st) ''required_channel''"
    by (simp add: has_key_lookup split: option.splits)
next
  fix kvs
  assume "config_file st = Parsed (JObj kvs)"
  from lookup_loaded_record[OF this, of w "''required_channel''"]
  show "lookup (loaded w st) ''required_channel''
        = (case map_of kvs ''required_channel'' of
             None \<Rightarrow> Some (JStr (default_channel st))
           | Some v \<Rightarrow> Some v)"
    by simp
next
  fix kvs k
  assume "config_file st = Parsed (JObj kvs)" and "k \<noteq> ''required_channel''"
  with lookup_loaded_record[of st kvs w k] show "lookup (loaded w st) k = map_of kvs k"
    by simp
qed

theorem load_backfills_required_channel_witness:
  "config_file (initial_store (Parsed (JObj [(''theme'', JStr ''dark'')])) ''@news'')
     = Parsed (JObj [(''theme'', JStr ''dark'')]) \<and>
   map_of [(''theme'', JStr ''dark'')] ''required_channel'' = None \<and>
   loaded Written (initial_store (Parsed (JObj [(''theme'', JStr ''dark'')])) ''@news'')
     = JObj [(''theme'', JStr ''dark''), (''required_channel'', JStr ''@news'')] \<and>
   lookup (loaded Written (initial_store (Parsed (JObj [(''theme'', JStr ''dark'')])) ''@news''))
     ''required_channel'' = Some (JStr ''@news'') \<and>
   loaded Written (initial_store Absent ''@news'') = JObj [(''required_channel'', JStr ''@news'')]"
proof -
  have stored: "config_file (initial_store (Parsed (JObj [(''theme'', JStr ''dark'')])) ''@news'')
     = Parsed (JObj [(''theme'', JStr ''dark'')])"
    by (simp add: initial_store_def)
  have whole: "loaded Written (initial_store (Parsed (JObj [(''theme'', JStr ''dark'')])) ''@news'')
     = JObj [(''theme'', JStr ''dark''), (''required_channel'', JStr ''@news'')]"
    by (simp add: config_eval)
  show ?thesis
    using stored whole
      load_backfills_required_channel[of Written
        "initial_store (Parsed (JObj [(''theme'', JStr ''dark'')])) ''@news''"]
      load_backfills_required_channel[of Written "initial_store Absent ''@news''"]
    by (simp add: initial_store_def)
qed

text \<open>
  Claim C8 says that the object \<open>load_config\<close> returns always has the key
  \<open>required_channel\<close>, also when the file parses. The code does not keep it. For a file
  whose text is the JSON list with the one element \<open>required_channel\<close>, the test
  \<open>key not in config\<close> of line 47 is false (the string is an element of the list), so
  nothing is assigned, nothing raises, and line 49 returns the list: an object with no
  key at all. The same happens for a JSON string that has \<open>required_channel\<close> as a
  substring. Every other value that is not a record raises in the loop and is replaced
  by the default configuration (the empty list below), which is what the comment of
  line 45, \<open>Ensure all keys are present\<close>, asks for.
\<close>

theorem load_config_returns_list_without_key:
  "loaded Written (initial_store (Parsed (JList [JStr ''required_channel''])) ''@news'')
     = JList [JStr ''required_channel''] \<and>
   \<not> has_key (loaded Written (initial_store (Parsed (JList [JStr ''required_channel''])) ''@news''))
         ''required_channel'' \<and>
   lookup (loaded Written (initial_store (Parsed (JList [JStr ''required_channel''])) ''@news''))
     ''required_channel'' = None \<and>
   loaded Written (initial_store (Parsed (JStr ''my required_channel'')) ''@news'')
     = JStr ''my required_channel'' \<and>
   \<not> has_key (loaded Written (initial_store (Parsed (JStr ''my required_channel'')) ''@news''))
         ''required_channel'' \<and>
   loaded Written (initial_store (Parsed (JList [])) ''@news'')
     = JObj [(''required_channel'', JStr ''@news'')]"
  by (simp add: config_eval startswith_def)

text \<open>
  Claim C9. \<open>/setchannel\<close> from a sender outside the admin list replies with the fixed
  permission-denied text and nothing else happens. The stored configuration (the file
  and the default) is as before whenever the sender is no admin, no argument is given,
  or the first argument does not start with \<open>@\<close>; so a change of it means an admin and
  a first argument starting with \<open>@\<close>. The handler strips the argument first, which
  changes nothing in an argument without white space, as the platform library
  delivers them.
\<close>

theorem setchannel_admin_gate:
  "(uid \<notin> set ADMIN_IDS \<longrightarrow>
      set_channel_command ADMIN_IDS w1 w2 uid args st = ([PERMISSION_DENIED], None, st)) \<and>
   (uid \<notin> set ADMIN_IDS \<or> args = [] \<or> \<not> startswith (strip (hd args)) ''@'' \<longrightarrow>
      snd (snd (set_channel_command ADMIN_IDS w1 w2 uid args st)) = st) \<and>
   (snd (snd (set_channel_command ADMIN_IDS w1 w2 uid args st)) \<noteq> st \<longrightarrow>
      uid \<in> set ADMIN_IDS \<and> args \<noteq> [] \<and> startswith (strip (hd args)) ''@'') \<and>
   ((\<forall>c \<in> set (hd args). \<not> isspace c) \<longrightarrow> strip (hd args) = hd args)"
proof -
  have unchanged:
    "uid \<notin> set ADMIN_IDS \<or> args = [] \<or> \<not> startswith (strip (hd args)) ''@'' \<longrightarrow>
       snd (snd (set_channel_command ADMIN_IDS w1 w2 uid args st)) = st"
    by (auto simp: set_channel_command_def Let_def)
  have denied:
    "uid \<notin> set ADMIN_IDS \<longrightarrow>
       set_channel_command ADMIN_IDS w1 w2 uid args st = ([PERMISSION_DENIED], None, st)"
    by (simp add: set_channel_command_def)
  from unchanged denied strip_plain[of "hd args"] show ?thesis by blast
qed

theorem setchannel_admin_gate_witness:
  "99 \<notin> set [1001, 1002 :: int] \<and>
   set_channel_command [1001, 1002] Written Written 99 [''@foo'']
       (initial_store (Parsed (JObj [(''required_channel'', JStr ''@news'')])) ''@news'')
     = ([PERMISSION_DENIED], None,
        initial_store (Parsed (JObj [(''required_channel'', JStr ''@news'')])) ''@news'') \<and>
   list_all (\<lambda>c. \<not> isspace c) ''@foo'' \<and>
   strip (hd [''@foo'']) = ''@foo'' \<and>
   snd (snd (set_channel_command [1001, 1002] Written Written 1001 [''@foo'']
       (initial_store (Parsed (JObj [(''required_channel'', JStr ''@news'')])) ''@news'')))
     \<noteq> initial_store (Parsed (JObj [(''required_channel'', JStr ''@news'')])) ''@news'' \<and>
   startswith (strip (hd [''@foo''])) ''@''"
proof -
  have outsider: "99 \<notin> set [1001, 1002 :: int]" by simp
  have plain: "list_all (\<lambda>c. \<not> isspace c) ''@foo''" by (simp add: isspace_def)
  have changed:
    "snd (snd (set_channel_command [1001, 1002] Written Written 1001 [''@foo'']
       (initial_store (Parsed (JObj [(''required_channel'', JStr ''@news'')])) ''@news'')))
     \<noteq> initial_store (Parsed (JObj [(''required_channel'', JStr ''@news'')])) ''@news''"
    by (simp add: set_channel_command_def strip_def isspace_def startswith_def config_eval Let_def)
  show ?thesis
    using outsider plain changed
      setchannel_admin_gate[of 99 "[1001, 1002]" Written Written "[''@foo'']"
        "initial_store (Parsed (JObj [(''required_channel'', JStr ''@news'')])) ''@news''"]
      setchannel_admin_gate[of 1001 "[1001, 1002]" Written Written "[''@foo'']"
        "initial_store (Parsed (JObj [(''required_channel'', JStr ''@news'')])) ''@news''"]
    by (simp add: list_all_iff)
qed

section \<open>What loading leaves in the store\<close>

text \<open>
  An absent file is created with the default configuration when the write succeeds; a
  file that does not load is left as it is, and so is one that loads.
\<close>

lemma load_config_store:
  "config_file st = Absent \<Longrightarrow>
     snd (load_config Written st) = st\<lparr>config_file := Parsed (JObj (DEFAULT_CONFIG st))\<rparr>"
  "config_file st \<noteq> Absent \<Longrightarrow> snd (load_config w st) = st"
  by (auto simp: load_config_def save_config_def split: file_state.splits sum.splits)

end
